theory Spec2Isabelle
  imports Complex_Main "HOL-Library.Sublist" "HOL-Library.Multiset"
begin

section \<open>Strings and the runtime's string functions\<close>

text \<open>
  A Python \<open>str\<close> is a sequence of Unicode code points, and the price lists are written in
  Russian, so a string is modelled as the list of its code points. \<open>u\<close> turns an ASCII
  literal into such a string. The substring test \<open>kw in s\<close> of Python is contiguous
  containment, \<^const>\<open>sublist\<close>.

  The functions of the Python runtime that the program calls (\<open>str.lower\<close>, \<open>float\<close>, the
  formatting of a float) are parameters of the model: every general theorem holds for
  whatever the runtime computes. \<open>lower_ru\<close> is \<open>str.lower\<close> on the ASCII and the Cyrillic
  capital letters (every other code point is left as it is); it is used to evaluate the
  program on concrete Russian headers and products.
\<close>

type_synonym ustr = "nat list"

definition u :: "string \<Rightarrow> ustr" where
  "u s = map of_char s"

definition lower_cp :: "nat \<Rightarrow> nat" where
  "lower_cp c =
     (if 65 \<le> c \<and> c \<le> 90 then c + 32
      else if 1040 \<le> c \<and> c \<le> 1071 then c + 32
      else if 1024 \<le> c \<and> c \<le> 1039 then c + 80
      else c)"

definition lower_ru :: "ustr \<Rightarrow> ustr" where
  "lower_ru s = map lower_cp s"

section \<open>Header classifier: \<open>_search_product_price_weight\<close>\<close>

text \<open>The three keyword lists, as the code points of the Russian words of the source
  (product: tovar, nazvanie, naimenovanie, produkt; price: roznica, cena; weight: ves,
  massa, fasovka).\<close>

definition product_keywords :: "ustr list" where
  "product_keywords =
     [[1090, 1086, 1074, 1072, 1088],
      [1085, 1072, 1079, 1074, 1072, 1085, 1080, 1077],
      [1085, 1072, 1080, 1084, 1077, 1085, 1086, 1074, 1072, 1085, 1080, 1077],
      [1087, 1088, 1086, 1076, 1091, 1082, 1090]]"

definition price_keywords :: "ustr list" where
  "price_keywords =
     [[1088, 1086, 1079, 1085, 1080, 1094, 1072],
      [1094, 1077, 1085, 1072]]"

definition weight_keywords :: "ustr list" where
  "weight_keywords =
     [[1074, 1077, 1089],
      [1084, 1072, 1089, 1089, 1072],
      [1092, 1072, 1089, 1086, 1074, 1082, 1072]]"

text \<open>\<open>any(keyword in header_lower for keyword in keywords)\<close>\<close>

definition any_keyword_in :: "ustr list \<Rightarrow> ustr \<Rightarrow> bool" where
  "any_keyword_in keywords header_lower = list_ex (\<lambda>keyword. sublist keyword header_lower) keywords"

type_synonym idx3 = "nat option \<times> nat option \<times> nat option"

text \<open>
  One pass of the loop body over \<open>(i, header)\<close>: three independent \<open>if\<close> statements, each
  of which overwrites its index whenever the header matches.
\<close>

fun search_step :: "(ustr \<Rightarrow> ustr) \<Rightarrow> idx3 \<Rightarrow> nat \<times> ustr \<Rightarrow> idx3" where
  "search_step lw (product_idx, price_idx, weight_idx) (i, header) =
     (let header_lower = lw header in
        ((if any_keyword_in product_keywords header_lower then Some i else product_idx),
         (if any_keyword_in price_keywords header_lower then Some i else price_idx),
         (if any_keyword_in weight_keywords header_lower then Some i else weight_idx)))"

text \<open>\<open>for i, header in enumerate(headers)\<close>, starting from three \<open>None\<close>.\<close>

definition search_product_price_weight :: "(ustr \<Rightarrow> ustr) \<Rightarrow> ustr list \<Rightarrow> idx3" where
  "search_product_price_weight lw headers =
     foldl (search_step lw) (None, None, None) (enumerate 0 headers)"

text \<open>
  The two readings of "which header wins a role". \<open>first_match\<close> follows the words of the
  specification: the first header in column order whose lower-cased text contains a keyword
  of the role. \<open>last_match_of\<close> says that a role's slot holds the last such header.
\<close>

definition header_matches :: "(ustr \<Rightarrow> ustr) \<Rightarrow> ustr list \<Rightarrow> ustr \<Rightarrow> bool" where
  "header_matches lw keywords header = any_keyword_in keywords (lw header)"

definition first_match :: "(ustr \<Rightarrow> ustr) \<Rightarrow> ustr list \<Rightarrow> ustr list \<Rightarrow> nat option" where
  "first_match lw keywords headers =
     map_option fst (find (\<lambda>(i, header). header_matches lw keywords header) (enumerate 0 headers))"

definition last_match_of :: "(ustr \<Rightarrow> ustr) \<Rightarrow> ustr list \<Rightarrow> ustr list \<Rightarrow> nat option \<Rightarrow> bool" where
  "last_match_of lw keywords headers slot =
     (case slot of
        None \<Rightarrow> \<forall>header \<in> set headers. \<not> header_matches lw keywords header
      | Some i \<Rightarrow> i < length headers \<and> header_matches lw keywords (headers ! i) \<and>
          (\<forall>j \<in> {Suc i ..< length headers}. \<not> header_matches lw keywords (headers ! j)))"

text \<open>The loop seen one role at a time.\<close>

fun role_scan :: "(ustr \<Rightarrow> ustr) \<Rightarrow> ustr list \<Rightarrow> nat option \<Rightarrow> nat \<Rightarrow> ustr list \<Rightarrow> nat option" where
  "role_scan lw keywords slot n [] = slot"
| "role_scan lw keywords slot n (header # headers) =
     role_scan lw keywords (if header_matches lw keywords header then Some n else slot) (Suc n) headers"

section \<open>Records, rows and floats\<close>

text \<open>
  The exceptions the program can meet. Every one of them is caught by the
  \<open>except Exception\<close> of \<open>load_prices\<close> when it is raised while a file is processed.
\<close>

datatype pyerr = ValueError | TypeError | KeyError | IndexError | AttributeError
  | ZeroDivisionError | OSError

text \<open>
  A cell of a row is a string, or Python's \<open>None\<close>: \<open>csv.DictReader\<close> fills the columns
  that a short row does not reach with \<open>None\<close>.

  Floats are idealised as rationals: \<open>float(s)\<close> is the parameter \<open>pf\<close>, where
  \<open>pf s = None\<close> stands for \<open>ValueError\<close>, and division is exact. Rounding, overflow and
  the cells that spell \<open>inf\<close> or \<open>nan\<close> are outside the model: a \<open>price_per_kg\<close> of
  the model is absent or a number, never NaN.
\<close>

type_synonym cell = "ustr option"

record item =
  product :: cell
  price :: cell
  weight :: "rat option"
  src_file :: ustr
  price_per_kg :: "rat option"

text \<open>
  The dictionary that \<open>csv.DictReader\<close> builds for a row: \<open>dict(zip(fieldnames, row))\<close>,
  then \<open>None\<close> for every field name beyond the row's length. A later column overwrites
  an earlier one of the same name.
\<close>

definition dict_row :: "ustr list \<Rightarrow> ustr list \<Rightarrow> (ustr \<rightharpoonup> cell)" where
  "dict_row fieldnames cells =
     map_of (rev (zip fieldnames
       (map Some cells @ replicate (length fieldnames - length cells) None)))"

text \<open>\<open>row[headers[idx]]\<close>: the list subscript, then the dictionary subscript.\<close>

definition row_at :: "(ustr \<rightharpoonup> cell) \<Rightarrow> ustr list \<Rightarrow> nat \<Rightarrow> pyerr + cell" where
  "row_at row headers idx =
     (if idx < length headers
      then (case row (headers ! idx) of None \<Rightarrow> Inl KeyError | Some c \<Rightarrow> Inr c)
      else Inl IndexError)"

text \<open>\<open>float(x)\<close> for a cell: \<open>TypeError\<close> on \<open>None\<close>, \<open>ValueError\<close> on an unparsable string.\<close>

definition float_py :: "(ustr \<Rightarrow> rat option) \<Rightarrow> cell \<Rightarrow> pyerr + rat" where
  "float_py pf c =
     (case c of
        None \<Rightarrow> Inl TypeError
      | Some s \<Rightarrow> (case pf s of None \<Rightarrow> Inl ValueError | Some x \<Rightarrow> Inr x))"

text \<open>\<open>a / b\<close> on floats.\<close>

definition truediv :: "rat \<Rightarrow> rat \<Rightarrow> pyerr + rat" where
  "truediv a b = (if b = 0 then Inl ZeroDivisionError else Inr (a / b))"

section \<open>Ingestion: \<open>load_prices\<close>\<close>

text \<open>
  The body of \<open>for row in reader\<close> up to the dictionary that is appended.
  \<open>if weight:\<close> is false for \<open>None\<close> and for the empty string; \<open>if weight_kg:\<close> is false
  for \<open>None\<close> and for zero. \<open>float(price)\<close> is evaluated only when \<open>weight_kg > 0\<close>, and
  it is not guarded by a \<open>try\<close>.
\<close>

definition row_item ::
  "(ustr \<Rightarrow> rat option) \<Rightarrow> ustr \<Rightarrow> ustr list \<Rightarrow> nat \<Rightarrow> nat \<Rightarrow> nat option \<Rightarrow>
     (ustr \<rightharpoonup> cell) \<Rightarrow> pyerr + item" where
  "row_item pf fname headers product_idx price_idx weight_idx row =
     (case row_at row headers product_idx of Inl e \<Rightarrow> Inl e | Inr product_c \<Rightarrow>
      case row_at row headers price_idx of Inl e \<Rightarrow> Inl e | Inr price_c \<Rightarrow>
      case (case weight_idx of None \<Rightarrow> Inr None | Some wi \<Rightarrow> row_at row headers wi) of
        Inl e \<Rightarrow> Inl e | Inr weight_c \<Rightarrow>
      let weight_kg =
            (case weight_c of
               None \<Rightarrow> None
             | Some s \<Rightarrow> if s = [] then None else pf s)
      in
      case (case weight_kg of
              None \<Rightarrow> Inr None
            | Some w \<Rightarrow>
                if w = 0 then Inr None
                else if w > 0 then
                  (case float_py pf price_c of Inl e \<Rightarrow> Inl e | Inr p \<Rightarrow>
                   case truediv p w of Inl e \<Rightarrow> Inl e | Inr q \<Rightarrow> Inr (Some q))
                else Inr None) of
        Inl e \<Rightarrow> Inl e | Inr ppk \<Rightarrow>
      Inr \<lparr>product = product_c, price = price_c, weight = weight_kg,
           src_file = fname, price_per_kg = ppk\<rparr>)"

text \<open>
  \<open>for row in reader\<close>: each record is appended to \<open>self.data\<close> as soon as it is built.
  An exception leaves the loop with the records appended so far; it is returned beside the
  data as the error that the \<open>except\<close> clause catches and prints.
\<close>

fun load_rows ::
  "(ustr \<Rightarrow> rat option) \<Rightarrow> ustr \<Rightarrow> ustr list \<Rightarrow> nat \<Rightarrow> nat \<Rightarrow> nat option \<Rightarrow>
     item list \<Rightarrow> (ustr \<rightharpoonup> cell) list \<Rightarrow> item list \<times> pyerr option" where
  "load_rows pf fname headers product_idx price_idx weight_idx data [] = (data, None)"
| "load_rows pf fname headers product_idx price_idx weight_idx data (row # rows) =
     (case row_item pf fname headers product_idx price_idx weight_idx row of
        Inl e \<Rightarrow> (data, Some e)
      | Inr it \<Rightarrow> load_rows pf fname headers product_idx price_idx weight_idx (data @ [it]) rows)"

text \<open>
  A file is its name and what reading it gives: an error from \<open>open\<close>, or the rows that
  \<open>csv.reader\<close> yields, the first of which \<open>DictReader\<close> takes as \<open>fieldnames\<close>,
  together with the error that the reader raises when it is asked for the row after them,
  if the file cannot be read to its end (a decoding error, a malformed line). The file is
  read lazily, inside the \<open>try\<close>: such an error arrives after the rows before it have
  been processed. The \<open>DictReader\<close> skips the empty rows after the header. The path of a file ends with its
  name, so \<open>file_path.endswith('.csv')\<close> is a test on the name, and
  \<open>os.path.basename(file_path)\<close> is the name.
\<close>

datatype content = Unreadable pyerr | Csv "ustr list list" "pyerr option"

record pfile =
  fname :: ustr
  content :: content

text \<open>
  One turn of \<open>for file_path in valid_files\<close> with its \<open>try\<close>. A file without the
  extension is passed over. An empty file has \<open>fieldnames = None\<close>, and enumerating it
  raises \<open>TypeError\<close>. When the header leaves the product or the price unassigned the
  reader is never asked for a row. Otherwise the rows are processed, and when all of them
  went through, the reader's own error, if it has one, ends the loop.
\<close>

definition load_file ::
  "(ustr \<Rightarrow> rat option) \<Rightarrow> (ustr \<Rightarrow> ustr) \<Rightarrow> item list \<Rightarrow> pfile \<Rightarrow> item list \<times> pyerr option" where
  "load_file pf lw data f =
     (if suffix (u ''.csv'') (fname f) then
        (case content f of
           Unreadable e \<Rightarrow> (data, Some e)
         | Csv [] reader_error \<Rightarrow>
             (case reader_error of
                None \<Rightarrow> (data, Some TypeError)
              | Some e \<Rightarrow> (data, Some e))
         | Csv (headers # body) reader_error \<Rightarrow>
             (case search_product_price_weight lw headers of
                (Some product_idx, Some price_idx, weight_idx) \<Rightarrow>
                  (case load_rows pf (fname f) headers product_idx price_idx weight_idx data
                          (map (dict_row headers) (filter (\<lambda>r. r \<noteq> []) body)) of
                     (data', None) \<Rightarrow> (data', reader_error)
                   | (data', Some e) \<Rightarrow> (data', Some e))
              | _ \<Rightarrow> (data, None)))
      else (data, None))"

text \<open>
  The loop over the files threads \<open>self.data\<close> and the list of the errors printed.
\<close>

fun load_files ::
  "(ustr \<Rightarrow> rat option) \<Rightarrow> (ustr \<Rightarrow> ustr) \<Rightarrow> item list \<times> pyerr list \<Rightarrow> pfile list \<Rightarrow>
     item list \<times> pyerr list" where
  "load_files pf lw (data, errs) [] = (data, errs)"
| "load_files pf lw (data, errs) (f # fs) =
     (case load_file pf lw data f of
        (data', None) \<Rightarrow> load_files pf lw (data', errs) fs
      | (data', Some e) \<Rightarrow> load_files pf lw (data', errs @ [e]) fs)"

text \<open>
  The sort key \<open>x['price_per_kg'] if x['price_per_kg'] else float('inf')\<close>: a float, or
  infinity when the value is \<open>None\<close> or zero (both are false in Python). The keys of the
  model are totally ordered. A NaN key, which a price cell \<open>nan\<close> beside a positive weight
  produces, is not in the model: it compares false with everything, and what Python's
  sort does with it follows no order. Every statement about the order of the sorted view
  is about catalogs without a NaN \<open>price_per_kg\<close>.
\<close>

datatype sortkey = Fin rat | PInf

instantiation sortkey :: linorder
begin

fun less_eq_sortkey :: "sortkey \<Rightarrow> sortkey \<Rightarrow> bool" where
  "less_eq_sortkey (Fin a) (Fin b) = (a \<le> b)"
| "less_eq_sortkey (Fin a) PInf = True"
| "less_eq_sortkey PInf (Fin b) = False"
| "less_eq_sortkey PInf PInf = True"

definition less_sortkey :: "sortkey \<Rightarrow> sortkey \<Rightarrow> bool" where
  "less_sortkey a b = (a \<le> b \<and> \<not> b \<le> a)"

instance
proof
  fix x y z :: sortkey
  show "(x < y) = (x \<le> y \<and> \<not> y \<le> x)" by (simp add: less_sortkey_def)
  show "x \<le> x" by (cases x) simp_all
  show "x \<le> y \<Longrightarrow> y \<le> z \<Longrightarrow> x \<le> z" by (cases x; cases y; cases z) simp_all
  show "x \<le> y \<Longrightarrow> y \<le> x \<Longrightarrow> x = y" by (cases x; cases y) simp_all
  show "x \<le> y \<or> y \<le> x" by (cases x; cases y) auto
qed

end

definition item_key :: "item \<Rightarrow> sortkey" where
  "item_key x =
     (case price_per_kg x of
        None \<Rightarrow> PInf
      | Some v \<Rightarrow> if v = 0 then PInf else Fin v)"

text \<open>
  \<open>sorted(data, key=...)\<close>: Python's sort is stable, and over a total order on the keys a
  stable sort has one result, which the insertion sort \<^const>\<open>sort_key\<close> computes.
\<close>

definition sorted_view :: "item list \<Rightarrow> item list" where
  "sorted_view data = sort_key item_key data"

text \<open>
  \<open>load_prices\<close>: the files whose name contains \<open>price\<close> (the directory walk itself is
  the caller's), each loaded in turn, and the data sorted at the end.
\<close>

definition load_prices ::
  "(ustr \<Rightarrow> rat option) \<Rightarrow> (ustr \<Rightarrow> ustr) \<Rightarrow> item list \<Rightarrow> pfile list \<Rightarrow> item list \<times> pyerr list" where
  "load_prices pf lw data files =
     (let valid_files = filter (\<lambda>f. sublist (u ''price'') (lw (fname f))) files;
          (data', errs) = load_files pf lw (data, []) valid_files
      in (sorted_view data', errs))"

text \<open>
  A small \<open>float\<close> for evaluating examples: the plain strings of ASCII digits, read as
  decimal numbers; on every other string it answers \<open>ValueError\<close>, which is what Python
  does for the non-numeric strings of the examples.
\<close>

fun digits_value :: "nat \<Rightarrow> ustr \<Rightarrow> nat option" where
  "digits_value acc [] = Some acc"
| "digits_value acc (c # cs) =
     (if 48 \<le> c \<and> c \<le> 57 then digits_value (10 * acc + (c - 48)) cs else None)"

definition float_digits :: "ustr \<Rightarrow> rat option" where
  "float_digits s = (if s = [] then None else map_option of_nat (digits_value 0 s))"

section \<open>Search: \<open>find_text\<close>\<close>

text \<open>
  \<open>str(x)\<close> of a cell is the cell itself, or the four letters \<open>None\<close>; \<open>x.lower()\<close> of
  a cell raises \<open>AttributeError\<close> on \<open>None\<close>.
\<close>

definition str_cell :: "cell \<Rightarrow> ustr" where
  "str_cell c = (case c of None \<Rightarrow> u ''None'' | Some s \<Rightarrow> s)"

definition lower_cell :: "(ustr \<Rightarrow> ustr) \<Rightarrow> cell \<Rightarrow> pyerr + ustr" where
  "lower_cell lw c = (case c of None \<Rightarrow> Inl AttributeError | Some s \<Rightarrow> Inr (lw s))"

text \<open>The word that the search excludes (Russian \<open>naimenovanie\<close>, "name"), in lower case.\<close>

definition excluded_word :: ustr where
  "excluded_word = [1085, 1072, 1080, 1084, 1077, 1085, 1086, 1074, 1072, 1085, 1080, 1077]"

text \<open>
  The list comprehension of \<open>find_text\<close>. The condition is
  \<open>text.lower() in str(item['product']).lower() and excluded_word not in item['product'].lower()\<close>:
  the second conjunct is evaluated only when the first holds, and it calls \<open>lower\<close> on the
  product itself, not on its \<open>str\<close>.
\<close>

fun find_filter :: "(ustr \<Rightarrow> ustr) \<Rightarrow> ustr \<Rightarrow> item list \<Rightarrow> pyerr + item list" where
  "find_filter lw text [] = Inr []"
| "find_filter lw text (it # data) =
     (if sublist (lw text) (lw (str_cell (product it))) then
        (case lower_cell lw (product it) of
           Inl e \<Rightarrow> Inl e
         | Inr product_lower \<Rightarrow>
             (case find_filter lw text data of
                Inl e \<Rightarrow> Inl e
              | Inr results \<Rightarrow>
                  Inr (if \<not> sublist excluded_word product_lower then it # results else results)))
      else find_filter lw text data)"

definition find_text :: "(ustr \<Rightarrow> ustr) \<Rightarrow> ustr \<Rightarrow> item list \<Rightarrow> pyerr + item list" where
  "find_text lw text data =
     (case find_filter lw text data of
        Inl e \<Rightarrow> Inl e
      | Inr results \<Rightarrow> Inr (sort_key item_key results))"

text \<open>
  The search as the specification words it: the records whose product contains the query
  case-insensitively and whose product does not contain the substring \<open>excluded_word\<close>, in
  the order of the sorted view. \<open>query_match\<close> is the test that the program applies to a
  record whose product is a string.
\<close>

definition spec_find :: "(ustr \<Rightarrow> ustr) \<Rightarrow> ustr \<Rightarrow> item list \<Rightarrow> item list" where
  "spec_find lw text data =
     filter (\<lambda>it. case product it of
                    None \<Rightarrow> False
                  | Some p \<Rightarrow> sublist (lw text) (lw p) \<and> \<not> sublist excluded_word p)
       (sorted_view data)"

definition query_match :: "(ustr \<Rightarrow> ustr) \<Rightarrow> ustr \<Rightarrow> item \<Rightarrow> bool" where
  "query_match lw text it =
     (case product it of
        None \<Rightarrow> False
      | Some p \<Rightarrow> sublist (lw text) (lw p) \<and> \<not> sublist excluded_word (lw p))"

definition not_excluded :: "(ustr \<Rightarrow> ustr) \<Rightarrow> item \<Rightarrow> bool" where
  "not_excluded lw it =
     (case product it of None \<Rightarrow> False | Some p \<Rightarrow> \<not> sublist excluded_word (lw p))"

text \<open>
  The sort key as the specification words it: an absent value is infinity, a present one
  is itself.
\<close>

definition spec_key :: "item \<Rightarrow> sortkey" where
  "spec_key x = (case price_per_kg x of None \<Rightarrow> PInf | Some v \<Rightarrow> Fin v)"

section \<open>Renderer: \<open>export_to_html\<close>\<close>

text \<open>\<open>str\<close> of a non-negative integer, for the row number.\<close>

fun str_nat :: "nat \<Rightarrow> ustr" where
  "str_nat n = (if n < 10 then [48 + n] else str_nat (n div 10) @ [48 + n mod 10])"

declare str_nat.simps [simp del]

text \<open>
  \<open>{item['weight']}\<close> prints \<open>None\<close> or the float; how Python prints a float is the
  parameter \<open>sf\<close>, and the format \<open>.2f\<close> is the parameter \<open>fmt2\<close>.
\<close>

definition str_weight :: "(rat \<Rightarrow> ustr) \<Rightarrow> rat option \<Rightarrow> ustr" where
  "str_weight sf w = (case w of None \<Rightarrow> u ''None'' | Some x \<Rightarrow> sf x)"

text \<open>\<open>f"{price_per_kg:.2f}" if price_per_kg else 'N/A'\<close>\<close>

definition price_per_kg_formatted :: "(rat \<Rightarrow> ustr) \<Rightarrow> rat option \<Rightarrow> ustr" where
  "price_per_kg_formatted fmt2 ppk =
     (case ppk of
        None \<Rightarrow> u ''N/A''
      | Some v \<Rightarrow> if v = 0 then u ''N/A'' else fmt2 v)"

text \<open>The literal pieces of the document, with the source's line breaks and indentation.\<close>

definition html_head :: ustr where
  "html_head =
     [10] @ replicate 8 32 @ u ''<!DOCTYPE html>'' @
     [10] @ replicate 8 32 @ u ''<html>'' @
     [10] @ replicate 8 32 @ u ''<head>'' @
     [10] @ replicate 12 32 @ u ''<title>'' @
       [1055, 1086, 1079, 1080, 1094, 1080, 1080] @ u '' '' @
       [1087, 1088, 1086, 1076, 1091, 1082, 1090, 1086, 1074] @ u ''</title>'' @
     [10] @ replicate 8 32 @ u ''</head>'' @
     [10] @ replicate 8 32 @ u ''<body>'' @
     [10] @ replicate 12 32 @ u ''<table border='' @ [34] @ u ''1'' @ [34] @ u '' style='' @ [34] @
       u ''width:100%; text-align:left; border-collapse: collapse;'' @ [34] @ u ''>'' @
     [10] @ replicate 16 32 @ u ''<tr>'' @
     [10] @ replicate 20 32 @ u ''<th>'' @ [1053, 1086, 1084, 1077, 1088] @ u ''</th>'' @
     [10] @ replicate 20 32 @ u ''<th>'' @
       [1053, 1072, 1080, 1084, 1077, 1085, 1086, 1074, 1072, 1085, 1080, 1077] @ u ''</th>'' @
     [10] @ replicate 20 32 @ u ''<th>'' @ [1062, 1077, 1085, 1072] @ u ''</th>'' @
     [10] @ replicate 20 32 @ u ''<th>'' @ [1042, 1077, 1089] @ u ''</th>'' @
     [10] @ replicate 20 32 @ u ''<th>'' @ [1060, 1072, 1081, 1083] @ u ''</th>'' @
     [10] @ replicate 20 32 @ u ''<th>'' @ [1062, 1077, 1085, 1072] @ u '' '' @ [1079, 1072] @
       u '' '' @ [1082, 1075] @ u ''.</th>'' @
     [10] @ replicate 16 32 @ u ''</tr>'' @
     [10] @ replicate 8 32"

definition html_tail :: ustr where
  "html_tail =
     [10] @ replicate 12 32 @ u ''</table>'' @
     [10] @ replicate 8 32 @ u ''</body>'' @
     [10] @ replicate 8 32 @ u ''</html>'' @
     [10] @ replicate 8 32"

definition row_open :: ustr where
  "row_open = [10] @ replicate 16 32 @ u ''<tr>'' @ [10] @ replicate 20 32 @ u ''<td>''"

definition cell_sep :: ustr where
  "cell_sep = u ''</td>'' @ [10] @ replicate 20 32 @ u ''<td>''"

definition row_close :: ustr where
  "row_close = u ''</td>'' @ [10] @ replicate 16 32 @ u ''</tr>'' @ [10] @ replicate 12 32"

text \<open>The f-string of one table row.\<close>

definition render_row :: "(rat \<Rightarrow> ustr) \<Rightarrow> (rat \<Rightarrow> ustr) \<Rightarrow> nat \<times> item \<Rightarrow> ustr" where
  "render_row fmt2 sf p =
     (case p of (idx, it) \<Rightarrow>
        row_open @ str_nat idx @
        cell_sep @ str_cell (product it) @
        cell_sep @ str_cell (price it) @
        cell_sep @ str_weight sf (weight it) @
        cell_sep @ src_file it @
        cell_sep @ price_per_kg_formatted fmt2 (price_per_kg it) @
        row_close)"

text \<open>
  \<open>export_to_html\<close>: the text that is written to the file. The loop
  \<open>for idx, item in enumerate(sorted_data, start=1)\<close> appends one row to \<open>result\<close> at a
  time.
\<close>

definition export_to_html :: "(rat \<Rightarrow> ustr) \<Rightarrow> (rat \<Rightarrow> ustr) \<Rightarrow> item list \<Rightarrow> ustr" where
  "export_to_html fmt2 sf data =
     (let sorted_data = sorted_view data;
          result = html_head;
          result = foldl (\<lambda>result p. result @ render_row fmt2 sf p) result
                     (enumerate 1 sorted_data);
          result = result @ html_tail
      in result)"

text \<open>
  Two small printers for evaluating examples on whole numbers, where they agree with
  Python: \<open>str(2.0) = '2.0'\<close> and \<open>f"{50.0:.2f}" = '50.00'\<close>.
\<close>

definition str_float_whole :: "rat \<Rightarrow> ustr" where
  "str_float_whole x =
     (if x < 0 then u ''-'' else []) @ str_nat (nat \<lfloor>\<bar>x\<bar>\<rfloor>) @ u ''.0''"

definition fmt2_whole :: "rat \<Rightarrow> ustr" where
  "fmt2_whole x =
     (if x < 0 then u ''-'' else []) @ str_nat (nat \<lfloor>\<bar>x\<bar>\<rfloor>) @ u ''.00''"

section \<open>Example inputs\<close>

text \<open>
  Russian words used in the examples, named by their transliteration; a capital letter in
  the name is a capital letter in the word (\<open>tovar\<close> goods, \<open>nazvanie\<close> and \<open>Naimenovanie\<close>
  name, \<open>Cena\<close> price, \<open>Ves\<close> weight, \<open>Yabloko\<close> apple, \<open>Grusha\<close> pear).
\<close>

definition w_tovar :: ustr where
  "w_tovar = [1090, 1086, 1074, 1072, 1088]"

definition w_nazvanie :: ustr where
  "w_nazvanie = [1085, 1072, 1079, 1074, 1072, 1085, 1080, 1077]"

definition w_Naimenovanie :: ustr where
  "w_Naimenovanie = [1053, 1072, 1080, 1084, 1077, 1085, 1086, 1074, 1072, 1085, 1080, 1077]"

definition w_Cena :: ustr where
  "w_Cena = [1062, 1077, 1085, 1072]"

definition w_Ves :: ustr where
  "w_Ves = [1042, 1077, 1089]"

definition w_Yabloko :: ustr where
  "w_Yabloko = [1071, 1073, 1083, 1086, 1082, 1086]"

definition w_Grusha :: ustr where
  "w_Grusha = [1043, 1088, 1091, 1096, 1072]"

text \<open>
  The header row \<open>Naimenovanie, Cena, Ves\<close> and small price files over it: one whose first
  price is not a number, one without any keyword in its headers, one whose second row
  raises, one with empty and missing cells, one with a price of zero, and one whose row is
  shorter than its header; then rows and records of these files.
\<close>

definition ex_headers :: "ustr list" where
  "ex_headers = [w_Naimenovanie, w_Cena, w_Ves]"

definition ex_bad_price_file :: pfile where
  "ex_bad_price_file =
     \<lparr>fname = u ''price2.csv'',
      content = Csv [ex_headers, [w_Yabloko, u ''abc'', u ''2''], [w_Grusha, u ''150'', u ''1'']] None\<rparr>"

definition ex_no_roles_file :: pfile where
  "ex_no_roles_file =
     \<lparr>fname = u ''price0.csv'', content = Csv [[u ''id'', u ''qty''], [u ''1'', u ''2'']] None\<rparr>"

definition ex_raise_file :: pfile where
  "ex_raise_file =
     \<lparr>fname = u ''price3.csv'',
      content = Csv [ex_headers, [w_Yabloko, u ''100'', u ''2''], [w_Grusha, u ''abc'', u ''2''],
                     [w_Yabloko, u ''150'', u ''1'']] None\<rparr>"

definition ex_empty_cells_file :: pfile where
  "ex_empty_cells_file =
     \<lparr>fname = u ''price4.csv'',
      content = Csv [[w_Naimenovanie, w_Cena], [[], u ''10''], [w_Yabloko, []], [w_Grusha]] None\<rparr>"

definition ex_zero_weight_row :: "ustr \<rightharpoonup> cell" where
  "ex_zero_weight_row = dict_row ex_headers [w_Yabloko, u ''100'', u ''0'']"

definition ex_apple_row :: "ustr \<rightharpoonup> cell" where
  "ex_apple_row = dict_row ex_headers [w_Yabloko, u ''100'', u ''2'']"

definition ex_empty_cells_rows :: "(ustr \<rightharpoonup> cell) list" where
  "ex_empty_cells_rows =
     map (dict_row [w_Naimenovanie, w_Cena]) [[[], u ''10''], [w_Yabloko, []], [w_Grusha]]"

definition ex_empty_cells_items :: "item list" where
  "ex_empty_cells_items =
     [\<lparr>product = Some [], price = Some (u ''10''), weight = None,
       src_file = u ''price4.csv'', price_per_kg = None\<rparr>,
      \<lparr>product = Some w_Yabloko, price = Some [], weight = None,
       src_file = u ''price4.csv'', price_per_kg = None\<rparr>,
      \<lparr>product = Some w_Grusha, price = None, weight = None,
       src_file = u ''price4.csv'', price_per_kg = None\<rparr>]"

definition ex_apple3 :: item where
  "ex_apple3 =
     \<lparr>product = Some w_Yabloko, price = Some (u ''100''), weight = Some 2,
      src_file = u ''price3.csv'', price_per_kg = Some 50\<rparr>"

definition ex_zero_price_file :: pfile where
  "ex_zero_price_file =
     \<lparr>fname = u ''price5.csv'',
      content = Csv [ex_headers, [w_Yabloko, u ''0'', u ''1''], [w_Grusha, u ''5'', u ''1'']] None\<rparr>"

definition ex_zero_item :: item where
  "ex_zero_item =
     \<lparr>product = Some w_Yabloko, price = Some (u ''0''), weight = Some 1,
      src_file = u ''price5.csv'', price_per_kg = Some 0\<rparr>"

definition ex_five_item :: item where
  "ex_five_item =
     \<lparr>product = Some w_Grusha, price = Some (u ''5''), weight = Some 1,
      src_file = u ''price5.csv'', price_per_kg = Some 5\<rparr>"

definition ex_name_item :: item where
  "ex_name_item =
     \<lparr>product = Some w_Naimenovanie, price = Some (u ''1''), weight = None,
      src_file = u ''price6.csv'', price_per_kg = None\<rparr>"

definition ex_short_row_file :: pfile where
  "ex_short_row_file =
     \<lparr>fname = u ''price7.csv'', content = Csv [[w_Cena, w_Naimenovanie], [u ''10'']] None\<rparr>"

definition ex_absent_product_item :: item where
  "ex_absent_product_item =
     \<lparr>product = None, price = Some (u ''10''), weight = None,
      src_file = u ''price7.csv'', price_per_kg = None\<rparr>"

text \<open>The query \<open>grusha\<close>, in lower case.\<close>

definition w_grusha :: ustr where
  "w_grusha = [1075, 1088, 1091, 1096, 1072]"

section \<open>Properties of the header classifier\<close>

lemmas classifier_eval =
  search_product_price_weight_def first_match_def header_matches_def any_keyword_in_def
  product_keywords_def price_keywords_def weight_keywords_def lower_ru_def lower_cp_def
  sublist_Cons_right


lemma search_fold_roles:
  "foldl (search_step lw) (a, b, c) (enumerate n headers) =
     (role_scan lw product_keywords a n headers,
      role_scan lw price_keywords b n headers,
      role_scan lw weight_keywords c n headers)"
  by (induction headers arbitrary: a b c n) (simp_all add: header_matches_def)

lemma role_scan_snoc:
  "role_scan lw kws slot n (headers @ [header]) =
     (if header_matches lw kws header then Some (n + length headers)
      else role_scan lw kws slot n headers)"
  by (induction headers arbitrary: slot n) simp_all

lemma role_scan_last_match:
  "last_match_of lw kws headers (role_scan lw kws None 0 headers)"
proof (induction headers rule: rev_induct)
  case Nil
  show ?case by (simp add: last_match_of_def)
next
  case (snoc header headers)
  show ?case
  proof (cases "header_matches lw kws header")
    case True
    then show ?thesis
      by (simp add: role_scan_snoc last_match_of_def)
  next
    case False
    show ?thesis
    proof (cases "role_scan lw kws None 0 headers")
      case None
      with snoc False show ?thesis
        by (simp add: role_scan_snoc last_match_of_def)
    next
      case (Some i)
      with snoc have i: "i < length headers" "header_matches lw kws (headers ! i)"
        and later: "\<forall>j \<in> {Suc i ..< length headers}. \<not> header_matches lw kws (headers ! j)"
        by (simp_all add: last_match_of_def)
      have "\<not> header_matches lw kws ((headers @ [header]) ! j)"
        if "j \<in> {Suc i ..< Suc (length headers)}" for j
      proof (cases "j < length headers")
        case True
        with that later show ?thesis by (simp add: nth_append)
      next
        case False
        with that have "j = length headers" by simp
        with \<open>\<not> header_matches lw kws header\<close> show ?thesis by simp
      qed
      with i Some False show ?thesis
        by (simp add: role_scan_snoc last_match_of_def nth_append)
    qed
  qed
qed

text \<open>
  C1 (as amended). For every header row, the classifier assigns each role (product, price,
  weight) to the last header in column order whose lower-cased text contains one of that
  role's keywords: a later matching header overrides an earlier one, and a role with no
  matching header is left unassigned.
\<close>

theorem search_last_match_wins:
  "last_match_of lw product_keywords headers (fst (search_product_price_weight lw headers)) \<and>
   last_match_of lw price_keywords headers (fst (snd (search_product_price_weight lw headers))) \<and>
   last_match_of lw weight_keywords headers (snd (snd (search_product_price_weight lw headers)))"
  by (simp add: search_product_price_weight_def search_fold_roles role_scan_last_match)

text \<open>
  The claim as stated fails on the header row \<open>tovar, nazvanie\<close>: both headers match the
  product role, the first one is at index 0, and the classifier answers index 1.
\<close>

theorem search_first_match_counterexample:
  "search_product_price_weight lower_ru [w_tovar, w_nazvanie] = (Some 1, None, None) \<and>
   first_match lower_ru product_keywords [w_tovar, w_nazvanie] = Some 0"
  by (simp add: classifier_eval w_tovar_def w_nazvanie_def)

theorem search_last_match_wins_witness:
  "last_match_of lower_ru product_keywords [w_tovar, w_Naimenovanie, w_Cena] (Some 1) \<and>
   last_match_of lower_ru price_keywords [w_tovar, w_Naimenovanie, w_Cena] (Some 2) \<and>
   last_match_of lower_ru weight_keywords [w_tovar, w_Naimenovanie, w_Cena] None"
proof -
  have run: "search_product_price_weight lower_ru [w_tovar, w_Naimenovanie, w_Cena]
               = (Some 1, Some 2, None)"
    by (simp add: classifier_eval w_tovar_def w_Naimenovanie_def w_Cena_def)
  show ?thesis
    using search_last_match_wins [of lower_ru "[w_tovar, w_Naimenovanie, w_Cena]"]
    unfolding run by simp
qed

section \<open>Properties of ingestion\<close>

lemmas ingest_eval =
  load_prices_def load_file_def row_item_def row_at_def dict_row_def float_py_def truediv_def
  float_digits_def u_def suffix_to_prefix sorted_view_def item_key_def
  w_Naimenovanie_def w_Cena_def w_Ves_def w_Yabloko_def w_Grusha_def w_tovar_def w_nazvanie_def
  ex_headers_def

text \<open>The fields of a record are the cells of its row, as read.\<close>

lemma row_item_fields:
  assumes "row_item pf fn hs pidx cidx widx row = Inr it"
  shows "row_at row hs pidx = Inr (product it)" "row_at row hs cidx = Inr (price it)" "src_file it = fn"
  using assms by (auto simp: row_item_def Let_def split: sum.splits option.splits if_splits)

text \<open>
  What \<open>load_rows\<close> returns is the data it was given followed by the records of the rows
  up to the first row that raises, and the error of that row, if there is one.
\<close>

lemma load_rows_append:
  "load_rows pf fn hs pidx cidx widx data rows = (data', err) \<Longrightarrow>
     \<exists>its. data' = data @ its \<and> map (row_item pf fn hs pidx cidx widx) (take (length its) rows) = map Inr its
        \<and> length its \<le> length rows \<and> (err = None \<longrightarrow> length its = length rows)
        \<and> (\<forall>e. err = Some e \<longrightarrow> length its < length rows \<and> row_item pf fn hs pidx cidx widx (rows ! length its) = Inl e)"
proof (induction rows arbitrary: data)
  case Nil
  then show ?case by simp
next
  case (Cons row rows)
  show ?case
  proof (cases "row_item pf fn hs pidx cidx widx row")
    case (Inl e)
    with Cons.prems show ?thesis by auto
  next
    case (Inr it)
    with Cons.prems have "load_rows pf fn hs pidx cidx widx (data @ [it]) rows = (data', err)" by simp
    from Cons.IH [OF this] obtain its where its:
      "data' = (data @ [it]) @ its"
      "map (row_item pf fn hs pidx cidx widx) (take (length its) rows) = map Inr its"
      "length its \<le> length rows" "err = None \<longrightarrow> length its = length rows"
      "\<forall>e. err = Some e \<longrightarrow> length its < length rows \<and> row_item pf fn hs pidx cidx widx (rows ! length its) = Inl e"
      by blast
    show ?thesis
      by (rule exI [of _ "it # its"]) (use its Inr in simp)
  qed
qed

lemma load_rows_raise:
  "map (row_item pf fn hs pidx cidx widx) pre = map Inr its \<Longrightarrow>
   row_item pf fn hs pidx cidx widx bad = Inl e \<Longrightarrow>
   load_rows pf fn hs pidx cidx widx data (pre @ bad # post) = (data @ its, Some e)"
proof (induction pre arbitrary: data its)
  case Nil
  then show ?case by simp
next
  case (Cons row pre)
  then obtain it its' where "its = it # its'" "row_item pf fn hs pidx cidx widx row = Inr it"
    "map (row_item pf fn hs pidx cidx widx) pre = map Inr its'"
    by (cases its) auto
  with Cons show ?case by simp
qed

lemma load_rows_all:
  "map (row_item pf fn hs pidx cidx widx) rows = map Inr its \<Longrightarrow>
   load_rows pf fn hs pidx cidx widx data rows = (data @ its, None)"
proof (induction rows arbitrary: data its)
  case Nil
  then show ?case by simp
next
  case (Cons row rows)
  then obtain it its' where "its = it # its'" "row_item pf fn hs pidx cidx widx row = Inr it"
    "map (row_item pf fn hs pidx cidx widx) rows = map Inr its'"
    by (cases its) auto
  with Cons show ?case by simp
qed

text \<open>Neither a file nor the loop over the files ever takes a record or an error away.\<close>

lemma load_file_prefix:
  "\<exists>more. fst (load_file pf lw data f) = data @ more"
proof (cases "load_file pf lw data f")
  case (Pair data' r)
  have "\<exists>more. data' = data @ more"
  proof (cases "suffix (u ''.csv'') (fname f)")
    case False
    with Pair show ?thesis by (simp add: load_file_def)
  next
    case True
    show ?thesis
    proof (cases "content f")
      case (Unreadable e)
      with True Pair show ?thesis by (simp add: load_file_def)
    next
      case (Csv rows rerr)
      show ?thesis
      proof (cases rows)
        case Nil
        with True Csv Pair show ?thesis
          by (auto simp: load_file_def split: option.splits)
      next
        case (Cons headers body)
        obtain a b c where roles: "search_product_price_weight lw headers = (a, b, c)"
          by (cases "search_product_price_weight lw headers") auto
        show ?thesis
        proof (cases "a = None \<or> b = None")
          case True
          with \<open>suffix (u ''.csv'') (fname f)\<close> Csv Cons roles Pair show ?thesis
            by (auto simp: load_file_def split: option.splits)
        next
          case False
          then obtain pidx cidx where ab: "a = Some pidx" "b = Some cidx" by auto
          obtain d r' where lr: "load_rows pf (fname f) headers pidx cidx c data
              (map (dict_row headers) (filter (\<lambda>r. r \<noteq> []) body)) = (d, r')"
            by (cases "load_rows pf (fname f) headers pidx cidx c data
              (map (dict_row headers) (filter (\<lambda>r. r \<noteq> []) body))") auto
          from load_rows_append [OF lr] obtain its where "d = data @ its" by blast
          moreover from True Csv Cons roles ab lr Pair have "data' = d"
            by (auto simp: load_file_def split: option.splits)
          ultimately show ?thesis by blast
        qed
      qed
    qed
  qed
  with Pair show ?thesis by simp
qed

lemma load_files_prefix:
  "\<exists>more es. load_files pf lw (data, errs) fs = (data @ more, errs @ es)"
proof (induction fs arbitrary: data errs)
  case Nil
  show ?case by simp
next
  case (Cons f fs)
  obtain d r where lf: "load_file pf lw data f = (d, r)"
    by (cases "load_file pf lw data f") auto
  from load_file_prefix [of pf lw data f] lf obtain m where d: "d = data @ m" by auto
  show ?case
  proof (cases r)
    case None
    from Cons.IH [of d errs] obtain more es where
      "load_files pf lw (d, errs) fs = (d @ more, errs @ es)" by blast
    with lf None d show ?thesis by simp
  next
    case (Some e)
    from Cons.IH [of d "errs @ [e]"] obtain more es where
      "load_files pf lw (d, errs @ [e]) fs = (d @ more, (errs @ [e]) @ es)" by blast
    with lf Some d show ?thesis by simp
  qed
qed

text \<open>
  C7. For every file whose header row leaves the product role or the price role unassigned,
  ingestion of that file contributes zero records to the catalog and raises no exception:
  the data are unchanged, nothing is caught, and the loop goes on to the next file with the
  same data and the same errors.
\<close>

theorem load_file_without_roles:
  assumes "fst (search_product_price_weight lw headers) = None \<or>
           fst (snd (search_product_price_weight lw headers)) = None"
  shows "load_file pf lw data \<lparr>fname = n, content = Csv (headers # body) rerr\<rparr> = (data, None) \<and>
         load_files pf lw (data, errs) (\<lparr>fname = n, content = Csv (headers # body) rerr\<rparr> # fs)
           = load_files pf lw (data, errs) fs"
proof -
  have "load_file pf lw data \<lparr>fname = n, content = Csv (headers # body) rerr\<rparr> = (data, None)"
    using assms
    by (cases "search_product_price_weight lw headers")
       (auto simp: load_file_def split: option.splits)
  then show ?thesis by simp
qed

theorem load_file_without_roles_witness:
  "(fst (search_product_price_weight lower_ru [u ''id'', u ''qty'']) = None \<or>
    fst (snd (search_product_price_weight lower_ru [u ''id'', u ''qty''])) = None) \<and>
   load_file float_digits lower_ru [] ex_no_roles_file = ([], None) \<and>
   load_files float_digits lower_ru ([], []) [ex_no_roles_file] = ([], [])"
proof -
  have h: "fst (search_product_price_weight lower_ru [u ''id'', u ''qty'']) = None \<or>
    fst (snd (search_product_price_weight lower_ru [u ''id'', u ''qty''])) = None"
    by (simp add: classifier_eval u_def)
  show ?thesis
    using h load_file_without_roles [OF h, of float_digits "[]" "u ''price0.csv''"
      "[[u ''1'', u ''2'']]" None "[]" "[]"]
    by (simp add: ex_no_roles_file_def)
qed

text \<open>
  C8. No row raises a division by zero. In every record that a row yields,
  \<open>price_per_kg\<close> is present only when the weight is present and strictly positive, and it
  is absent when the weight is zero or negative. A row whose weight cell parses to a value
  \<open>\<le> 0\<close> does yield a record, with \<open>price_per_kg\<close> absent.
\<close>

theorem row_item_weight_guard:
  "row_item pf fn hs pidx cidx widx row \<noteq> Inl ZeroDivisionError \<and>
   (\<forall>it. row_item pf fn hs pidx cidx widx row = Inr it \<longrightarrow>
      (price_per_kg it \<noteq> None \<longrightarrow> (\<exists>w. weight it = Some w \<and> 0 < w)) \<and>
      (\<forall>w. weight it = Some w \<and> w \<le> 0 \<longrightarrow> price_per_kg it = None)) \<and>
   (\<forall>pc cc k s w.
      row_at row hs pidx = Inr pc \<and> row_at row hs cidx = Inr cc \<and> widx = Some k \<and>
      row_at row hs k = Inr (Some s) \<and> pf s = Some w \<and> w \<le> 0 \<longrightarrow>
      (\<exists>it. row_item pf fn hs pidx cidx widx row = Inr it \<and> price_per_kg it = None))"
proof (intro conjI allI impI)
  show "row_item pf fn hs pidx cidx widx row \<noteq> Inl ZeroDivisionError"
    by (auto simp: row_item_def Let_def truediv_def float_py_def row_at_def
             split: sum.splits option.splits if_splits)
next
  fix it
  assume "row_item pf fn hs pidx cidx widx row = Inr it" "price_per_kg it \<noteq> None"
  then show "\<exists>w. weight it = Some w \<and> 0 < w"
    by (auto simp: row_item_def Let_def split: sum.splits option.splits if_splits)
next
  fix it w
  assume "row_item pf fn hs pidx cidx widx row = Inr it" "weight it = Some w \<and> w \<le> 0"
  then show "price_per_kg it = None"
    by (auto simp: row_item_def Let_def split: sum.splits option.splits if_splits)
next
  fix pc cc k s w
  assume "row_at row hs pidx = Inr pc \<and> row_at row hs cidx = Inr cc \<and> widx = Some k \<and>
      row_at row hs k = Inr (Some s) \<and> pf s = Some w \<and> w \<le> 0"
  then show "\<exists>it. row_item pf fn hs pidx cidx widx row = Inr it \<and> price_per_kg it = None"
    by (auto simp: row_item_def Let_def)
qed

lemma ex_zero_weight_cells:
  "row_at ex_zero_weight_row ex_headers 0 = Inr (Some w_Yabloko)"
  "row_at ex_zero_weight_row ex_headers 1 = Inr (Some (u ''100''))"
  "row_at ex_zero_weight_row ex_headers 2 = Inr (Some (u ''0''))"
  "float_digits (u ''0'') = Some 0"
  by (simp_all add: ex_zero_weight_row_def ingest_eval)

theorem row_item_weight_guard_witness:
  "row_at ex_zero_weight_row ex_headers 0 = Inr (Some w_Yabloko) \<and>
   row_at ex_zero_weight_row ex_headers 1 = Inr (Some (u ''100'')) \<and>
   row_at ex_zero_weight_row ex_headers 2 = Inr (Some (u ''0'')) \<and>
   float_digits (u ''0'') = Some 0 \<and> (0::rat) \<le> 0 \<and>
   (\<exists>it. row_item float_digits (u ''price1.csv'') ex_headers 0 1 (Some 2) ex_zero_weight_row = Inr it \<and>
         price_per_kg it = None) \<and>
   row_item float_digits (u ''price1.csv'') ex_headers 0 1 (Some 2) ex_apple_row =
     Inr \<lparr>product = Some w_Yabloko, price = Some (u ''100''), weight = Some 2,
          src_file = u ''price1.csv'', price_per_kg = Some 50\<rparr> \<and>
   (\<exists>w. weight \<lparr>product = Some w_Yabloko, price = Some (u ''100''), weight = Some 2,
          src_file = u ''price1.csv'', price_per_kg = Some 50\<rparr> = Some w \<and> 0 < w)"
proof -
  have apple: "row_item float_digits (u ''price1.csv'') ex_headers 0 1 (Some 2) ex_apple_row =
     Inr \<lparr>product = Some w_Yabloko, price = Some (u ''100''), weight = Some 2,
          src_file = u ''price1.csv'', price_per_kg = Some 50\<rparr>"
    by (simp add: ex_apple_row_def ingest_eval)
  have zero: "\<exists>it. row_item float_digits (u ''price1.csv'') ex_headers 0 1 (Some 2) ex_zero_weight_row = Inr it \<and>
         price_per_kg it = None"
    using row_item_weight_guard [of float_digits "u ''price1.csv''" ex_headers 0 1 "Some 2"
        ex_zero_weight_row] ex_zero_weight_cells
    by blast
  have pos: "\<exists>w. weight \<lparr>product = Some w_Yabloko, price = Some (u ''100''), weight = Some 2,
          src_file = u ''price1.csv'', price_per_kg = Some 50\<rparr> = Some w \<and> 0 < w"
    using row_item_weight_guard [of float_digits "u ''price1.csv''" ex_headers 0 1 "Some 2"
        ex_apple_row] apple
    by simp
  show ?thesis using ex_zero_weight_cells apple zero pos by simp
qed

text \<open>
  C9. Ingestion of a file is not atomic. When a row of a file raises an error, the records
  of the rows before it stay in the catalog, the rows after it are never read, the error is
  caught, and the loop goes on to the remaining files: the file alone leaves the catalog
  with those records and the error list with that error, the result over any further files
  begins with both, and a second file is loaded onto the catalog that holds the records.
\<close>

theorem load_file_not_atomic:
  assumes "suffix (u ''.csv'') n"
      and "search_product_price_weight lw headers = (Some pidx, Some cidx, widx)"
      and "map (dict_row headers) (filter (\<lambda>r. r \<noteq> []) body) = pre @ bad # post"
      and "map (row_item pf n headers pidx cidx widx) pre = map Inr its"
      and "row_item pf n headers pidx cidx widx bad = Inl e"
  shows "load_file pf lw data \<lparr>fname = n, content = Csv (headers # body) rerr\<rparr> = (data @ its, Some e) \<and>
         load_files pf lw (data, errs) (\<lparr>fname = n, content = Csv (headers # body) rerr\<rparr> # fs)
           = load_files pf lw (data @ its, errs @ [e]) fs \<and>
         load_files pf lw (data, errs) [\<lparr>fname = n, content = Csv (headers # body) rerr\<rparr>]
           = (data @ its, errs @ [e]) \<and>
         (\<exists>more es.
            load_files pf lw (data, errs) (\<lparr>fname = n, content = Csv (headers # body) rerr\<rparr> # fs)
              = (data @ its @ more, errs @ [e] @ es)) \<and>
         load_files pf lw (data, errs) [\<lparr>fname = n, content = Csv (headers # body) rerr\<rparr>, g]
           = (case load_file pf lw (data @ its) g of
                (data', None) \<Rightarrow> (data', errs @ [e])
              | (data', Some e') \<Rightarrow> (data', errs @ [e, e']))"
proof -
  have one: "load_file pf lw data \<lparr>fname = n, content = Csv (headers # body) rerr\<rparr> = (data @ its, Some e)"
    using assms(1-3) load_rows_raise [OF assms(4,5)]
    by (simp add: load_file_def)
  obtain more es where rest: "load_files pf lw (data @ its, errs @ [e]) fs
      = ((data @ its) @ more, (errs @ [e]) @ es)"
    using load_files_prefix by blast
  have two: "load_files pf lw (data, errs) [\<lparr>fname = n, content = Csv (headers # body) rerr\<rparr>, g]
           = (case load_file pf lw (data @ its) g of
                (data', None) \<Rightarrow> (data', errs @ [e])
              | (data', Some e') \<Rightarrow> (data', errs @ [e, e']))"
    using one by (simp split: prod.splits option.splits)
  have "\<exists>more es.
            load_files pf lw (data, errs) (\<lparr>fname = n, content = Csv (headers # body) rerr\<rparr> # fs)
              = (data @ its @ more, errs @ [e] @ es)"
    using one rest by simp
  with one two show ?thesis by simp
qed

text \<open>
  The same holds when it is the reader that fails after the rows read so far: their
  records stay, and the error is the one caught for the file.
\<close>

lemma load_file_reader_error:
  assumes "suffix (u ''.csv'') n"
      and "search_product_price_weight lw headers = (Some pidx, Some cidx, widx)"
      and "map (row_item pf n headers pidx cidx widx)
             (map (dict_row headers) (filter (\<lambda>r. r \<noteq> []) body)) = map Inr its"
  shows "load_file pf lw data \<lparr>fname = n, content = Csv (headers # body) (Some e)\<rparr>
           = (data @ its, Some e)"
  using assms load_rows_all [OF assms(3)] by (simp add: load_file_def)

theorem load_file_not_atomic_witness:
  "suffix (u ''.csv'') (u ''price3.csv'') \<and>
   search_product_price_weight lower_ru ex_headers = (Some 0, Some 1, Some 2) \<and>
   row_item float_digits (u ''price3.csv'') ex_headers 0 1 (Some 2)
     (dict_row ex_headers [w_Yabloko, u ''100'', u ''2'']) = Inr ex_apple3 \<and>
   row_item float_digits (u ''price3.csv'') ex_headers 0 1 (Some 2)
     (dict_row ex_headers [w_Grusha, u ''abc'', u ''2'']) = Inl ValueError \<and>
   load_file float_digits lower_ru [] ex_raise_file = ([ex_apple3], Some ValueError) \<and>
   load_files float_digits lower_ru ([], []) [ex_raise_file] = ([ex_apple3], [ValueError]) \<and>
   load_files float_digits lower_ru ([], []) [ex_raise_file, ex_no_roles_file]
     = ([ex_apple3], [ValueError])"
proof -
  have h1: "suffix (u ''.csv'') (u ''price3.csv'')"
    by (simp add: u_def suffix_to_prefix)
  have h2: "search_product_price_weight lower_ru ex_headers = (Some 0, Some 1, Some 2)"
    by (simp add: classifier_eval ingest_eval)
  have h3: "map (dict_row ex_headers) (filter (\<lambda>r. r \<noteq> [])
              [[w_Yabloko, u ''100'', u ''2''], [w_Grusha, u ''abc'', u ''2''],
               [w_Yabloko, u ''150'', u ''1'']])
            = [dict_row ex_headers [w_Yabloko, u ''100'', u ''2'']] @
              dict_row ex_headers [w_Grusha, u ''abc'', u ''2''] #
              [dict_row ex_headers [w_Yabloko, u ''150'', u ''1'']]"
    by simp
  have r1: "row_item float_digits (u ''price3.csv'') ex_headers 0 1 (Some 2)
     (dict_row ex_headers [w_Yabloko, u ''100'', u ''2'']) = Inr ex_apple3"
    by (simp add: ex_apple3_def ingest_eval)
  have h4: "map (row_item float_digits (u ''price3.csv'') ex_headers 0 1 (Some 2))
              [dict_row ex_headers [w_Yabloko, u ''100'', u ''2'']] = map Inr [ex_apple3]"
    using r1 by simp
  have h5: "row_item float_digits (u ''price3.csv'') ex_headers 0 1 (Some 2)
     (dict_row ex_headers [w_Grusha, u ''abc'', u ''2'']) = Inl ValueError"
    by (simp add: ingest_eval)
  have next_file: "load_file float_digits lower_ru [ex_apple3] ex_no_roles_file = ([ex_apple3], None)"
    by (simp add: ex_no_roles_file_def load_file_def classifier_eval u_def suffix_to_prefix)
  show ?thesis
    using h1 h2 r1 h5
      load_file_not_atomic [OF h1 h2 h3 h4 h5, of "[]" None "[]" "[]" ex_no_roles_file]
    by (simp add: ex_raise_file_def next_file)
qed

text \<open>
  The claim C4 as stated fails on a file with the headers \<open>Naimenovanie, Cena\<close> and the
  rows \<open>("", "10")\<close>, \<open>("Yabloko", "")\<close> and \<open>("Grusha")\<close>: the record with the empty
  product, the one with the empty price and the one with no price at all are in the catalog.
\<close>

theorem load_prices_empty_cells_counterexample:
  "load_prices float_digits lower_ru [] [ex_empty_cells_file] =
     ([\<lparr>product = Some [], price = Some (u ''10''), weight = None,
        src_file = u ''price4.csv'', price_per_kg = None\<rparr>,
       \<lparr>product = Some w_Yabloko, price = Some [], weight = None,
        src_file = u ''price4.csv'', price_per_kg = None\<rparr>,
       \<lparr>product = Some w_Grusha, price = None, weight = None,
        src_file = u ''price4.csv'', price_per_kg = None\<rparr>], [])"
proof -
  have hs: "search_product_price_weight lower_ru [w_Naimenovanie, w_Cena] = (Some 0, Some 1, None)"
    by (simp add: classifier_eval ingest_eval)
  have nm: "sublist (u ''price'') (lower_ru (u ''price4.csv''))"
    by (simp add: u_def lower_ru_def lower_cp_def sublist_Cons_right)
  have sf: "suffix (u ''.csv'') (u ''price4.csv'')"
    by (simp add: u_def suffix_to_prefix)
  have "load_file float_digits lower_ru [] ex_empty_cells_file =
     ([\<lparr>product = Some [], price = Some (u ''10''), weight = None,
        src_file = u ''price4.csv'', price_per_kg = None\<rparr>,
       \<lparr>product = Some w_Yabloko, price = Some [], weight = None,
        src_file = u ''price4.csv'', price_per_kg = None\<rparr>,
       \<lparr>product = Some w_Grusha, price = None, weight = None,
        src_file = u ''price4.csv'', price_per_kg = None\<rparr>], None)"
    unfolding ex_empty_cells_file_def load_file_def
    by (simp add: sf hs) (simp add: ingest_eval)
  then show ?thesis
    by (simp add: load_prices_def nm ex_empty_cells_file_def sorted_view_def item_key_def)
qed

text \<open>
  C4 (as amended). Ingestion discards no row for a missing or empty product or price. When
  the rows of a file are processed without an error, every row adds exactly one record to
  the catalog, in row order, and the record carries the row's product and price cells as
  they were read (an empty string and \<open>None\<close> included).
\<close>

theorem load_rows_keeps_every_row:
  assumes "load_rows pf fn hs pidx cidx widx data rows = (data', None)"
  shows "take (length data) data' = data \<and>
         length data' = length data + length rows \<and>
         map (\<lambda>it. Inr (product it)) (drop (length data) data') = map (\<lambda>row. row_at row hs pidx) rows \<and>
         map (\<lambda>it. Inr (price it)) (drop (length data) data') = map (\<lambda>row. row_at row hs cidx) rows"
proof -
  from load_rows_append [OF assms] obtain its where its:
    "data' = data @ its" "map (row_item pf fn hs pidx cidx widx) rows = map Inr its"
    "length its = length rows"
    by auto
  have fields: "row_at (rows ! k) hs pidx = Inr (product (its ! k)) \<and>
                row_at (rows ! k) hs cidx = Inr (price (its ! k))" if "k < length rows" for k
  proof -
    from its(2) that have "row_item pf fn hs pidx cidx widx (rows ! k) = Inr (its ! k)"
      by (metis its(3) length_map nth_map)
    then show ?thesis by (simp add: row_item_fields)
  qed
  have "map (\<lambda>it. Inr (product it)) its = map (\<lambda>row. row_at row hs pidx) rows"
    by (rule nth_equalityI) (simp_all add: its(3) fields)
  moreover have "map (\<lambda>it. Inr (price it)) its = map (\<lambda>row. row_at row hs cidx) rows"
    by (rule nth_equalityI) (simp_all add: its(3) fields)
  ultimately show ?thesis using its(1,3) by simp
qed

theorem load_rows_keeps_every_row_witness:
  "load_rows float_digits (u ''price4.csv'') [w_Naimenovanie, w_Cena] 0 1 None [] ex_empty_cells_rows
     = (ex_empty_cells_items, None) \<and>
   length ex_empty_cells_items = length ex_empty_cells_rows \<and>
   map (\<lambda>it. Inr (product it)) ex_empty_cells_items
     = map (\<lambda>row. row_at row [w_Naimenovanie, w_Cena] 0) ex_empty_cells_rows \<and>
   map (\<lambda>it. Inr (price it)) ex_empty_cells_items
     = map (\<lambda>row. row_at row [w_Naimenovanie, w_Cena] 1) ex_empty_cells_rows"
proof -
  have h: "load_rows float_digits (u ''price4.csv'') [w_Naimenovanie, w_Cena] 0 1 None []
             ex_empty_cells_rows = (ex_empty_cells_items, None)"
    by (simp add: ex_empty_cells_rows_def ex_empty_cells_items_def ingest_eval)
  show ?thesis
    using h load_rows_keeps_every_row [OF h] by simp
qed

text \<open>
  C2, evaluated on a file with the headers \<open>Naimenovanie, Cena, Ves\<close> and the rows
  \<open>("Yabloko", "abc", "2")\<close> and \<open>("Grusha", "150", "1")\<close>. The weight of the first row is
  positive, so \<open>float("abc")\<close> is evaluated and raises \<open>ValueError\<close> outside any
  \<open>try\<close> of the row: no record is created for that row, and the second row is never
  read.
\<close>

theorem load_prices_bad_price_aborts:
  "load_prices float_digits lower_ru [] [ex_bad_price_file] = ([], [ValueError])"
proof -
  have hs: "search_product_price_weight lower_ru ex_headers = (Some 0, Some 1, Some 2)"
    by (simp add: classifier_eval ingest_eval)
  have nm: "sublist (u ''price'') (lower_ru (u ''price2.csv''))"
    by (simp add: u_def lower_ru_def lower_cp_def sublist_Cons_right)
  have sf: "suffix (u ''.csv'') (u ''price2.csv'')"
    by (simp add: u_def suffix_to_prefix)
  have "load_file float_digits lower_ru [] ex_bad_price_file = ([], Some ValueError)"
    unfolding ex_bad_price_file_def load_file_def
    by (simp add: sf hs) (simp add: ingest_eval)
  then show ?thesis
    by (simp add: load_prices_def nm ex_bad_price_file_def sorted_view_def)
qed

section \<open>Properties of the sorted view\<close>

text \<open>
  The view is ascending in the key of the program, it is a permutation of the catalog,
  records of equal key keep their insertion order, and the key is infinite exactly for the
  records whose \<open>price_per_kg\<close> is absent or zero.
\<close>

lemma sorted_view_by_item_key:
  "sorted (map item_key (sorted_view data)) \<and>
   mset (sorted_view data) = mset data \<and>
   (\<forall>k. filter (\<lambda>x. item_key x = k) (sorted_view data) = filter (\<lambda>x. item_key x = k) data) \<and>
   (\<forall>x. item_key x = PInf \<longleftrightarrow> price_per_kg x = None \<or> price_per_kg x = Some 0)"
proof (intro conjI allI)
  show "sorted (map item_key (sorted_view data))"
    by (simp add: sorted_view_def)
  show "mset (sorted_view data) = mset data"
    by (simp add: sorted_view_def)
  show "filter (\<lambda>x. item_key x = k) (sorted_view data) = filter (\<lambda>x. item_key x = k) data" for k
    by (simp add: sorted_view_def sort_key_stable)
  show "item_key x = PInf \<longleftrightarrow> price_per_kg x = None \<or> price_per_kg x = Some 0" for x
    by (simp add: item_key_def split: option.splits)
qed

text \<open>
  C3, evaluated on a file with the rows \<open>("Yabloko", "0", "1")\<close> and
  \<open>("Grusha", "5", "1")\<close>. The first record has the price per kilogram 0, which is present
  and false in Python, so its key is infinity: the catalog comes out with the record of
  value 5 before the record of value 0, which is not ascending by \<open>price_per_kg\<close>.
\<close>

theorem sorted_view_zero_price:
  "load_prices float_digits lower_ru [] [ex_zero_price_file] = ([ex_five_item, ex_zero_item], []) \<and>
   \<not> sorted (map spec_key [ex_five_item, ex_zero_item])"
proof -
  have hs: "search_product_price_weight lower_ru ex_headers = (Some 0, Some 1, Some 2)"
    by (simp add: classifier_eval ingest_eval)
  have nm: "sublist (u ''price'') (lower_ru (u ''price5.csv''))"
    by (simp add: u_def lower_ru_def lower_cp_def sublist_Cons_right)
  have sf: "suffix (u ''.csv'') (u ''price5.csv'')"
    by (simp add: u_def suffix_to_prefix)
  have "load_file float_digits lower_ru [] ex_zero_price_file = ([ex_zero_item, ex_five_item], None)"
    unfolding ex_zero_price_file_def load_file_def
    by (simp add: sf hs) (simp add: ingest_eval ex_zero_item_def ex_five_item_def)
  then have "load_prices float_digits lower_ru [] [ex_zero_price_file] = ([ex_five_item, ex_zero_item], [])"
    by (simp add: load_prices_def nm ex_zero_price_file_def sorted_view_def item_key_def
          ex_zero_item_def ex_five_item_def)
  moreover have "\<not> sorted (map spec_key [ex_five_item, ex_zero_item])"
    by (simp add: spec_key_def ex_zero_item_def ex_five_item_def)
  ultimately show ?thesis by simp
qed

section \<open>Properties of the renderer\<close>

lemma foldl_append_rows:
  "foldl (\<lambda>result p. result @ f p) acc ps = acc @ concat (map f ps)"
  by (induction ps arbitrary: acc) simp_all

text \<open>
  The document is the head, one row per record of the sorted view, numbered from 1, and the
  tail. The last cell of a row is \<open>N/A\<close> when \<open>price_per_kg\<close> is absent or zero, and the
  two-decimal format of the value otherwise.
\<close>

lemma export_to_html_rows:
  "export_to_html fmt2 sf data =
     html_head @ concat (map (render_row fmt2 sf) (enumerate 1 (sorted_view data))) @ html_tail \<and>
   map fst (enumerate 1 (sorted_view data)) = [1 ..< length data + 1] \<and>
   map snd (enumerate 1 (sorted_view data)) = sorted_view data \<and>
   render_row fmt2 sf (idx, it) =
     row_open @ str_nat idx @
     cell_sep @ str_cell (product it) @
     cell_sep @ str_cell (price it) @
     cell_sep @ str_weight sf (weight it) @
     cell_sep @ src_file it @
     cell_sep @ price_per_kg_formatted fmt2 (price_per_kg it) @ row_close \<and>
   (price_per_kg it = None \<or> price_per_kg it = Some 0 \<longrightarrow>
      price_per_kg_formatted fmt2 (price_per_kg it) = u ''N/A'') \<and>
   (\<forall>v. price_per_kg it = Some v \<and> v \<noteq> 0 \<longrightarrow>
      price_per_kg_formatted fmt2 (price_per_kg it) = fmt2 v)"
proof (intro conjI allI impI)
  show "export_to_html fmt2 sf data =
     html_head @ concat (map (render_row fmt2 sf) (enumerate 1 (sorted_view data))) @ html_tail"
    by (simp add: export_to_html_def Let_def foldl_append_rows)
  show "map fst (enumerate 1 (sorted_view data)) = [1 ..< length data + 1]"
    by (simp add: sorted_view_def)
  show "map snd (enumerate 1 (sorted_view data)) = sorted_view data"
    by simp
  show "render_row fmt2 sf (idx, it) =
     row_open @ str_nat idx @
     cell_sep @ str_cell (product it) @
     cell_sep @ str_cell (price it) @
     cell_sep @ str_weight sf (weight it) @
     cell_sep @ src_file it @
     cell_sep @ price_per_kg_formatted fmt2 (price_per_kg it) @ row_close"
    by (simp add: render_row_def)
  show "price_per_kg_formatted fmt2 (price_per_kg it) = u ''N/A''"
    if "price_per_kg it = None \<or> price_per_kg it = Some 0"
    using that by (auto simp: price_per_kg_formatted_def)
  show "price_per_kg_formatted fmt2 (price_per_kg it) = fmt2 v"
    if "price_per_kg it = Some v \<and> v \<noteq> 0" for v
    using that by (simp add: price_per_kg_formatted_def)
qed

text \<open>
  C5, evaluated on the catalog of the single record of the row \<open>("Yabloko", "0", "1")\<close>,
  whose \<open>price_per_kg\<close> is present and equal to 0: its last cell is \<open>N/A\<close>, not the value
  with two decimals.
\<close>

theorem export_to_html_zero_price:
  "price_per_kg ex_zero_item = Some 0 \<and>
   export_to_html fmt2_whole str_float_whole [ex_zero_item] =
     html_head @
     (row_open @ u ''1'' @ cell_sep @ w_Yabloko @ cell_sep @ u ''0'' @ cell_sep @ u ''1.0'' @
      cell_sep @ u ''price5.csv'' @ cell_sep @ u ''N/A'' @ row_close) @
     html_tail"
  by (simp add: export_to_html_def sorted_view_def ex_zero_item_def render_row_def str_cell_def
        str_weight_def str_float_whole_def price_per_kg_formatted_def str_nat.simps u_def)

section \<open>Properties of the search\<close>

lemma find_filter_strings:
  "\<forall>it \<in> set data. product it \<noteq> None \<Longrightarrow>
     find_filter lw q data = Inr (filter (query_match lw q) data)"
  by (induction data) (auto simp: query_match_def str_cell_def lower_cell_def)

lemma find_filter_absent:
  "\<forall>x \<in> set pre. product x \<noteq> None \<Longrightarrow> product it = None \<Longrightarrow>
   sublist (lw q) (lw (u ''None'')) \<Longrightarrow>
     find_filter lw q (pre @ it # post) = Inl AttributeError"
  by (induction pre) (auto simp: str_cell_def lower_cell_def)

text \<open>
  The claim C6 as stated fails on a catalog of one record whose product is
  \<open>Naimenovanie\<close>, with a capital letter. The product does not contain the lower-case
  word, so the search as specified returns the record for the empty query; the program
  lower-cases the product before the exclusion test and returns nothing.
\<close>

theorem find_text_case_counterexample:
  "find_text lower_ru [] [ex_name_item] = Inr [] \<and>
   spec_find lower_ru [] [ex_name_item] = [ex_name_item]"
  by (simp add: find_text_def spec_find_def sorted_view_def ex_name_item_def str_cell_def
        lower_cell_def excluded_word_def w_Naimenovanie_def lower_ru_def lower_cp_def
        sublist_Cons_right)

text \<open>
  C6 (as amended). For every catalog in which every record's product is a string and no
  record's \<open>price_per_kg\<close> is NaN (the records of the model: \<open>price_per_kg\<close> absent or a
  number), and for every query \<open>q\<close>, \<open>find_text\<close> returns exactly the records whose
  lower-cased product contains the lower-cased \<open>q\<close> and does not contain the excluded word
  (the exclusion is case-insensitive too), as a subsequence of the sorted view in its order;
  for the empty query the result is the whole non-excluded catalog in sorted order.
\<close>

theorem find_text_string_products:
  assumes "\<forall>it \<in> set data. product it \<noteq> None"
  shows "find_text lw q data = Inr (filter (query_match lw q) (sorted_view data)) \<and>
         (lw [] = [] \<longrightarrow> find_text lw [] data = Inr (filter (not_excluded lw) (sorted_view data)))"
proof -
  have gen: "find_text lw t data = Inr (filter (query_match lw t) (sorted_view data))" for t
    by (simp add: find_text_def find_filter_strings [OF assms] sorted_view_def filter_sort)
  have "filter (query_match lw []) (sorted_view data) = filter (not_excluded lw) (sorted_view data)"
    if "lw [] = []"
    by (rule filter_cong) (auto simp: query_match_def not_excluded_def that split: option.splits)
  with gen show ?thesis by simp
qed

theorem find_text_string_products_witness:
  "product ex_name_item \<noteq> None \<and> product ex_five_item \<noteq> None \<and>
   product ex_zero_item \<noteq> None \<and>
   find_text lower_ru w_grusha [ex_name_item, ex_five_item, ex_zero_item] = Inr [ex_five_item] \<and>
   lower_ru [] = [] \<and>
   find_text lower_ru [] [ex_name_item, ex_five_item, ex_zero_item] = Inr [ex_five_item, ex_zero_item]"
proof -
  have h: "\<forall>it \<in> set [ex_name_item, ex_five_item, ex_zero_item]. product it \<noteq> None"
    by (simp add: ex_name_item_def ex_five_item_def ex_zero_item_def)
  have l: "lower_ru [] = []" by (simp add: lower_ru_def)
  have sv: "sorted_view [ex_name_item, ex_five_item, ex_zero_item] = [ex_five_item, ex_name_item, ex_zero_item]"
    by (simp add: sorted_view_def item_key_def ex_name_item_def ex_five_item_def ex_zero_item_def)
  have m: "\<not> query_match lower_ru w_grusha ex_name_item" "query_match lower_ru w_grusha ex_five_item"
    "\<not> query_match lower_ru w_grusha ex_zero_item"
    "\<not> not_excluded lower_ru ex_name_item" "not_excluded lower_ru ex_five_item"
    "not_excluded lower_ru ex_zero_item"
    by (simp_all add: query_match_def not_excluded_def ex_name_item_def ex_five_item_def
          ex_zero_item_def excluded_word_def w_Naimenovanie_def w_Grusha_def w_Yabloko_def
          w_grusha_def lower_ru_def lower_cp_def sublist_Cons_right)
  show ?thesis
    using h l find_text_string_products [OF h, of lower_ru w_grusha]
      find_text_string_products [OF h, of lower_ru "[]"]
    by (simp add: sv m)
qed

text \<open>
  C10. \<open>find_text\<close> returns a result on every catalog whose products are all strings. On
  a catalog that holds a record with an absent product, after records with string products
  only, it raises \<open>AttributeError\<close> for every query whose lower-cased text occurs in the
  lower-cased \<open>None\<close>: the match test coerces the product to a string, the exclusion test
  does not. A row shorter than its header produces such a record.
\<close>

theorem find_text_absent_product:
  "((\<forall>it \<in> set data. product it \<noteq> None) \<longrightarrow> (\<exists>res. find_text lw q data = Inr res)) \<and>
   ((\<forall>x \<in> set pre. product x \<noteq> None) \<and> product it = None \<and> sublist (lw q) (lw (u ''None'')) \<longrightarrow>
      find_text lw q (pre @ it # post) = Inl AttributeError)"
  by (simp add: find_text_def find_filter_strings find_filter_absent)

theorem find_text_absent_product_witness:
  "load_prices float_digits lower_ru [] [ex_short_row_file] = ([ex_absent_product_item], []) \<and>
   product ex_absent_product_item = None \<and>
   sublist (lower_ru []) (lower_ru (u ''None'')) \<and>
   product ex_five_item \<noteq> None \<and>
   find_text lower_ru [] ([ex_five_item] @ ex_absent_product_item # [ex_zero_item]) = Inl AttributeError \<and>
   (\<exists>res. find_text lower_ru [] [ex_five_item] = Inr res)"
proof -
  have hs: "search_product_price_weight lower_ru [w_Cena, w_Naimenovanie] = (Some 1, Some 0, None)"
    by (simp add: classifier_eval ingest_eval)
  have nm: "sublist (u ''price'') (lower_ru (u ''price7.csv''))"
    by (simp add: u_def lower_ru_def lower_cp_def sublist_Cons_right)
  have sf: "suffix (u ''.csv'') (u ''price7.csv'')"
    by (simp add: u_def suffix_to_prefix)
  have "load_file float_digits lower_ru [] ex_short_row_file = ([ex_absent_product_item], None)"
    unfolding ex_short_row_file_def load_file_def
    by (simp add: sf hs) (simp add: ingest_eval ex_absent_product_item_def)
  then have ld: "load_prices float_digits lower_ru [] [ex_short_row_file] = ([ex_absent_product_item], [])"
    by (simp add: load_prices_def nm ex_short_row_file_def sorted_view_def)
  have p: "product ex_absent_product_item = None" by (simp add: ex_absent_product_item_def)
  have s: "sublist (lower_ru []) (lower_ru (u ''None''))" by (simp add: lower_ru_def)
  have h: "\<forall>it \<in> set [ex_five_item]. product it \<noteq> None" by (simp add: ex_five_item_def)
  show ?thesis
    using ld p s h
      find_text_absent_product [of "[ex_five_item]" lower_ru "[]" "[ex_five_item]"
        ex_absent_product_item "[ex_zero_item]"]
    by simp
qed

end
